theory Spec2Isabelle
  imports Main
begin

section \<open>JavaScript values\<close>

text \<open>
  The client is dynamically typed: option objects, parsed response bodies, error fields and
  the stored token are arbitrary JavaScript values. Numbers are modelled as integers (status
  codes and error codes are integers; \<open>NaN\<close>, fractions and the printing of very large
  numbers are outside the model). An object is the list of its own properties in insertion
  order, with distinct keys.
\<close>

datatype jsval =
    JUndefined
  | JNull
  | JBool bool
  | JNum int
  | JStr string
  | JArr "jsval list"
  | JObj "(string \<times> jsval) list"

text \<open>\<open>function IDevJSError(message, code)\<close>: both fields hold whatever was passed in.\<close>

datatype IDevJSError = IDevJSError (message: jsval) (code: jsval)

text \<open>
  What a call can throw: a \<open>TypeError\<close> of the runtime (reading a property of
  \<open>undefined\<close> or \<open>null\<close>, calling something that is not a function, writing a
  chunk that is neither string nor buffer), or an \<open>IDevJSError\<close> thrown by the client.
\<close>

datatype exn = TypeError | Throw IDevJSError

text \<open>
  The two ways the node-style callback is invoked: \<open>callback(err, null)\<close> and
  \<open>callback(null, data)\<close>.
\<close>

datatype result = Failure IDevJSError | Success jsval

definition bind :: "exn + 'a \<Rightarrow> ('a \<Rightarrow> exn + 'b) \<Rightarrow> exn + 'b" where
  "bind m f = (case m of Inl e \<Rightarrow> Inl e | Inr v \<Rightarrow> f v)"

text \<open>Truthiness, as tested by \<open>!x\<close>, \<open>if (x)\<close> and \<open>x || y\<close>.\<close>

fun truthy :: "jsval \<Rightarrow> bool" where
  "truthy JUndefined = False"
| "truthy JNull = False"
| "truthy (JBool b) = b"
| "truthy (JNum n) = (n \<noteq> 0)"
| "truthy (JStr s) = (s \<noteq> [])"
| "truthy (JArr xs) = True"
| "truthy (JObj kvs) = True"

text \<open>\<open>a || b\<close>\<close>

definition or_else :: "jsval \<Rightarrow> jsval \<Rightarrow> jsval" where
  "or_else a b = (if truthy a then a else b)"

text \<open>
  The property read \<open>v.k\<close> (or \<open>v[k]\<close> with a string key). The names this client reads
  (\<open>clientId\<close>, \<open>clientSecret\<close>, \<open>version\<close>, \<open>userId\<close>, the post fields,
  \<open>data\<close>, \<open>errors\<close>, \<open>message\<close>, \<open>code\<close>, \<open>access_token\<close>) are not
  properties of any built-in prototype, so on arrays and primitives they read as
  \<open>undefined\<close>.
\<close>

fun get :: "jsval \<Rightarrow> string \<Rightarrow> exn + jsval" where
  "get JUndefined k = Inl TypeError"
| "get JNull k = Inl TypeError"
| "get (JObj kvs) k = Inr (case map_of kvs k of None \<Rightarrow> JUndefined | Some v \<Rightarrow> v)"
| "get v k = Inr JUndefined"

text \<open>The indexed read \<open>v[0]\<close>.\<close>

fun index0 :: "jsval \<Rightarrow> exn + jsval" where
  "index0 JUndefined = Inl TypeError"
| "index0 JNull = Inl TypeError"
| "index0 (JArr xs) = Inr (case xs of [] \<Rightarrow> JUndefined | x # _ \<Rightarrow> x)"
| "index0 (JStr s) = Inr (case s of [] \<Rightarrow> JUndefined | c # _ \<Rightarrow> JStr [c])"
| "index0 (JObj kvs) = Inr (case map_of kvs ''0'' of None \<Rightarrow> JUndefined | Some v \<Rightarrow> v)"
| "index0 v = Inr JUndefined"

subsection \<open>Conversion to string\<close>

fun digits :: "nat \<Rightarrow> string" where
  "digits n =
     (if n < 10 then [''0123456789'' ! n] else digits (n div 10) @ [''0123456789'' ! (n mod 10)])"

declare digits.simps [simp del]

definition show_int :: "int \<Rightarrow> string" where
  "show_int i = (if i < 0 then CHR ''-'' # digits (nat (- i)) else digits (nat i))"

fun join_with :: "string \<Rightarrow> string list \<Rightarrow> string" where
  "join_with sep [] = []"
| "join_with sep [x] = x"
| "join_with sep (x # y # ys) = x @ sep @ join_with sep (y # ys)"

text \<open>
  \<open>ToString\<close>, as applied by string concatenation and template literals. Inside an
  array, \<open>undefined\<close> and \<open>null\<close> elements are rendered as the empty string.
\<close>

fun ToString :: "jsval \<Rightarrow> string" where
  "ToString JUndefined = ''undefined''"
| "ToString JNull = ''null''"
| "ToString (JBool b) = (if b then ''true'' else ''false'')"
| "ToString (JNum n) = show_int n"
| "ToString (JStr s) = s"
| "ToString (JArr xs) =
     join_with '','' (map (\<lambda>x. if x = JUndefined \<or> x = JNull then [] else ToString x) xs)"
| "ToString (JObj kvs) = ''[object Object]''"

text \<open>
  The method call \<open>v.join(sep)\<close>. Only arrays have a \<open>join\<close> method; on every other
  value the call throws (a property of a plain object is never a function here).
\<close>

fun Array_join :: "jsval \<Rightarrow> string \<Rightarrow> exn + string" where
  "Array_join (JArr xs) sep =
     Inr (join_with sep (map (\<lambda>x. if x = JUndefined \<or> x = JNull then [] else ToString x) xs))"
| "Array_join v sep = Inl TypeError"

section \<open>The runtime\<close>

text \<open>
  Functions of the Node.js runtime whose output the client passes on without looking at it
  are parameters of the model: \<open>JSON.parse\<close> (\<open>None\<close> when it throws),
  \<open>querystring.stringify\<close> (applied to the properties of its argument) and
  \<open>url.format\<close>.
\<close>

record UrlObject =
  protocol :: string
  host :: string
  pathname :: string
  query :: "(string \<times> jsval) list"

record platform =
  JSON_parse :: "string \<Rightarrow> jsval option"
  qs_stringify :: "(string \<times> jsval) list \<Rightarrow> string"
  url_format :: "UrlObject \<Rightarrow> string"

text \<open>
  A request body is either a string written verbatim or the text \<open>JSON.stringify(v)\<close>,
  kept as the value \<open>v\<close> that was serialised.
\<close>

datatype body = Text string | Json jsval

record request =
  req_host :: string
  req_port :: nat
  req_method :: string
  req_path :: string
  req_headers :: "(string \<times> jsval) list"
  req_body :: "body option"

text \<open>
  What becomes of a request that is handed to the runtime. The runtime may refuse it:
  \<open>https.request\<close> throws a \<open>TypeError\<close> for a path with characters it does not
  allow (a space, say), and \<open>req.setHeader\<close> does for such a header value (a line
  break, say); then nothing is sent. Otherwise the request goes out, and what comes back
  is the \<open>error\<close> event with the transport's message (also after the timeout has
  aborted the request), or a response with its status code and the chunks of its body.
\<close>

datatype transport = Refused | NetError string | Response nat "string list"

section \<open>The client\<close>

definition DEFAULT_ERROR_CODE :: int where
  "DEFAULT_ERROR_CODE = - 1"

definition BASE_URI :: string where
  "BASE_URI = ''api.idevjs.com''"

definition DEFAULT_VERSION :: string where
  "DEFAULT_VERSION = ''v1''"

record IDevJSClient =
  this_options :: jsval
  this_version :: jsval
  this_clientId :: jsval
  this_clientSecret :: jsval
  this_accessToken :: jsval

text \<open>The options object of \<open>_makeRequest\<close>; an absent field is \<open>undefined\<close>.\<close>

record RequestDescriptor =
  "method" :: string
  path :: string
  contentType :: jsval
  data :: jsval

subsection \<open>\<open>_enforce\<close>\<close>

definition missing_parameter :: "string \<Rightarrow> IDevJSError" where
  \<open>missing_parameter requiredKey =
     IDevJSError (JStr (''Missing required parameter "'' @ requiredKey @ ''"''))
       (JNum DEFAULT_ERROR_CODE)\<close>

text \<open>The \<open>forEach\<close> over the required keys; the first throw ends it.\<close>

fun enforce_each :: "jsval \<Rightarrow> string list \<Rightarrow> exn + unit" where
  "enforce_each options [] = Inr ()"
| "enforce_each options (requiredKey # rest) =
     bind (get options requiredKey) (\<lambda>v.
       if \<not> truthy v then Inl (Throw (missing_parameter requiredKey))
       else enforce_each options rest)"

definition enforce :: "jsval \<Rightarrow> string list \<Rightarrow> exn + unit" where
  "enforce options requiredKeys =
     (if \<not> truthy options
      then Inl (Throw (IDevJSError (JStr ''Parameters for this call are undefined'')
                         (JNum DEFAULT_ERROR_CODE)))
      else enforce_each options requiredKeys)"

subsection \<open>Constructor, \<open>setAccessToken\<close>, \<open>getAuthorizationUrl\<close>\<close>

text \<open>\<open>constructor(options = {})\<close>: the default applies to \<open>undefined\<close> only.\<close>

definition new_IDevJSClient :: "jsval \<Rightarrow> exn + IDevJSClient" where
  "new_IDevJSClient arg =
     (let options = (if arg = JUndefined then JObj [] else arg) in
      bind (enforce options [''clientId'', ''clientSecret'']) (\<lambda>_.
      bind (get options ''version'') (\<lambda>v.
      bind (get options ''clientId'') (\<lambda>cid.
      bind (get options ''clientSecret'') (\<lambda>secret.
        Inr \<lparr> this_options = options,
              this_version = or_else v (JStr DEFAULT_VERSION),
              this_clientId = cid,
              this_clientSecret = secret,
              this_accessToken = JStr [] \<rparr>)))))"

definition setAccessToken :: "IDevJSClient \<Rightarrow> jsval \<Rightarrow> IDevJSClient" where
  "setAccessToken this token = this\<lparr>this_accessToken := token\<rparr>"

text \<open>\<open>getAuthorizationUrl(state, redirectUrl, requestedScope)\<close>, parameters in the source's order.\<close>

definition getAuthorizationUrl ::
  "platform \<Rightarrow> IDevJSClient \<Rightarrow> jsval \<Rightarrow> jsval \<Rightarrow> jsval \<Rightarrow> exn + string" where
  "getAuthorizationUrl P this state redirectUrl requestedScope =
     bind (Array_join requestedScope '','') (\<lambda>scope.
       Inr (url_format P
         \<lparr> protocol = ''https'',
           host = BASE_URI,
           pathname = ''/oauth/authorize'',
           query = [(''client_id'', this_clientId this),
                    (''scope'', JStr scope),
                    (''response_type'', JStr ''code''),
                    (''state'', state),
                    (''redirect_uri'', redirectUrl)] \<rparr>))"

subsection \<open>\<open>_makeRequest\<close>\<close>

text \<open>The listener for the response's \<open>end\<close> event.\<close>

definition on_end :: "platform \<Rightarrow> nat \<Rightarrow> string list \<Rightarrow> (result \<Rightarrow> exn + 'a) \<Rightarrow> exn + 'a" where
  "on_end P statusCode chunks callback =
     (let responseText = concat chunks in
      case JSON_parse P responseText of
        None \<Rightarrow>
          callback (Failure (IDevJSError (JStr ''Failed to parse response'') (JNum DEFAULT_ERROR_CODE)))
      | Some payload \<Rightarrow>
          (let statusType = statusCode div 100 in
           if statusType = 4 \<or> statusType = 5 then
             bind (get payload ''errors'') (\<lambda>errors.
             bind (index0 errors) (\<lambda>err.
             bind (get err ''message'') (\<lambda>m.
             bind (get err ''code'') (\<lambda>c.
               callback (Failure (IDevJSError m c))))))
           else if statusType = 2 then
             bind (get payload ''data'') (\<lambda>d. callback (Success (or_else d payload)))
           else
             callback (Failure (IDevJSError (JStr ''Unexpected response'') (JNum DEFAULT_ERROR_CODE)))))"

text \<open>
  The two events of a request: \<open>error\<close>, or a response read to its end. A refused
  request has no events: the \<open>TypeError\<close> of the refusal escapes, and the callback is
  never called.
\<close>

definition on_transport :: "platform \<Rightarrow> transport \<Rightarrow> (result \<Rightarrow> exn + 'a) \<Rightarrow> exn + 'a" where
  "on_transport P t callback =
     (case t of
        Refused \<Rightarrow> Inl TypeError
      | NetError msg \<Rightarrow> callback (Failure (IDevJSError (JStr msg) (JNum DEFAULT_ERROR_CODE)))
      | Response statusCode chunks \<Rightarrow> on_end P statusCode chunks callback)"

text \<open>
  \<open>if (options.data) { ... req.write(data) }\<close>: nothing is written for a falsy value, an
  object or array is serialised, a string is written as it is, and \<open>req.write\<close> rejects
  any other chunk.
\<close>

definition write_data :: "jsval \<Rightarrow> exn + body option" where
  "write_data d =
     (if truthy d then
        (case d of
           JObj kvs \<Rightarrow> Inr (Some (Json d))
         | JArr xs \<Rightarrow> Inr (Some (Json d))
         | JStr s \<Rightarrow> Inr (Some (Text s))
         | _ \<Rightarrow> Inl TypeError)
      else Inr None)"

text \<open>
  The request as it stands when \<open>req.end()\<close> is called: the parameters given to
  \<open>https.request\<close>, the four \<open>setHeader\<close> calls in their order, and what was written.
\<close>

definition outgoing :: "IDevJSClient \<Rightarrow> RequestDescriptor \<Rightarrow> body option \<Rightarrow> request" where
  "outgoing this options written =
     \<lparr> req_host = BASE_URI,
       req_port = 443,
       req_method = method options,
       req_path = ''/'' @ ToString (this_version this) @ path options,
       req_headers =
         [(''Content-Type'', or_else (contentType options) (JStr ''application/json'')),
          (''Authorization'', JStr (''Bearer '' @ ToString (this_accessToken this))),
          (''Accept'', JStr ''application/json''),
          (''Accept-Charset'', JStr ''utf-8'')],
       req_body = written \<rparr>"

text \<open>
  The result pairs the request that went out (\<open>None\<close> when the call threw before
  \<open>req.end()\<close>) with what the callback returned, or with the exception that escaped.
  \<open>net\<close> is the runtime with the network behind it: it tells what becomes of the
  request. A call can throw before \<open>req.end()\<close> in \<open>https.request\<close>, in
  \<open>req.setHeader\<close> and in \<open>req.write\<close>; each time it is a \<open>TypeError\<close> and
  nothing has been sent, so that the order of the three does not show.
\<close>

definition makeRequest ::
  "platform \<Rightarrow> IDevJSClient \<Rightarrow> RequestDescriptor \<Rightarrow> (request \<Rightarrow> transport) \<Rightarrow>
   (result \<Rightarrow> exn + 'a) \<Rightarrow> request option \<times> (exn + 'a)" where
  "makeRequest P this options net callback =
     (case write_data (data options) of
        Inl e \<Rightarrow> (None, Inl e)
      | Inr written \<Rightarrow>
          (let sent = outgoing this options written in
           (if net sent = Refused then None else Some sent,
            on_transport P (net sent) callback)))"

text \<open>A facade call that throws before it reaches \<open>_makeRequest\<close> sends nothing.\<close>

definition guard :: "exn + 'b \<Rightarrow> ('b \<Rightarrow> request option \<times> (exn + 'a)) \<Rightarrow> request option \<times> (exn + 'a)" where
  "guard m f = (case m of Inl e \<Rightarrow> (None, Inl e) | Inr v \<Rightarrow> f v)"

subsection \<open>Token acquisition\<close>

text \<open>
  The callbacks of the public operations also receive the client as it is when they are
  called, so that what they can observe of \<open>this._accessToken\<close> is part of the model.
\<close>

definition token_descriptor :: "platform \<Rightarrow> (string \<times> jsval) list \<Rightarrow> RequestDescriptor" where
  "token_descriptor P params =
     \<lparr> method = ''POST'',
       path = ''/oauth/tokens'',
       contentType = JStr ''application/x-www-form-urlencoded'',
       data = JStr (qs_stringify P params) \<rparr>"

text \<open>
  The function that \<open>_acquireAccessToken\<close> passes to \<open>_makeRequest\<close> as its callback:
  \<open>if (!err) { this._accessToken = data.access_token }\<close>, then \<open>callback(err, data)\<close>.
\<close>

definition on_token_result ::
  "IDevJSClient \<Rightarrow> (IDevJSClient \<Rightarrow> result \<Rightarrow> exn + 'a) \<Rightarrow> result \<Rightarrow> exn + 'a" where
  "on_token_result this callback r =
     (case r of
        Failure err \<Rightarrow> callback this r
      | Success dat \<Rightarrow>
          bind (get dat ''access_token'') (\<lambda>token.
            callback (this\<lparr>this_accessToken := token\<rparr>) r))"

definition acquireAccessToken ::
  "platform \<Rightarrow> IDevJSClient \<Rightarrow> (string \<times> jsval) list \<Rightarrow> (request \<Rightarrow> transport) \<Rightarrow>
   (IDevJSClient \<Rightarrow> result \<Rightarrow> exn + 'a) \<Rightarrow> request option \<times> (exn + 'a)" where
  "acquireAccessToken P this params net callback =
     makeRequest P this (token_descriptor P params) net (on_token_result this callback)"

definition exchangeAuthorizationCode ::
  "platform \<Rightarrow> IDevJSClient \<Rightarrow> jsval \<Rightarrow> jsval \<Rightarrow> (request \<Rightarrow> transport) \<Rightarrow>
   (IDevJSClient \<Rightarrow> result \<Rightarrow> exn + 'a) \<Rightarrow> request option \<times> (exn + 'a)" where
  "exchangeAuthorizationCode P this code' redirectUrl net callback =
     acquireAccessToken P this
       [(''code'', code'),
        (''client_id'', this_clientId this),
        (''client_secret'', this_clientSecret this),
        (''grant_type'', JStr ''authorization_code''),
        (''redirect_uri'', redirectUrl)]
       net callback"

definition exchangeRefreshToken ::
  "platform \<Rightarrow> IDevJSClient \<Rightarrow> jsval \<Rightarrow> (request \<Rightarrow> transport) \<Rightarrow>
   (IDevJSClient \<Rightarrow> result \<Rightarrow> exn + 'a) \<Rightarrow> request option \<times> (exn + 'a)" where
  "exchangeRefreshToken P this refreshToken net callback =
     acquireAccessToken P this
       [(''refresh_token'', refreshToken),
        (''client_id'', this_clientId this),
        (''client_secret'', this_clientSecret this),
        (''grant_type'', JStr ''refresh_token'')]
       net callback"

subsection \<open>Resource operations\<close>

definition getUser ::
  "platform \<Rightarrow> IDevJSClient \<Rightarrow> (request \<Rightarrow> transport) \<Rightarrow>
   (IDevJSClient \<Rightarrow> result \<Rightarrow> exn + 'a) \<Rightarrow> request option \<times> (exn + 'a)" where
  "getUser P this net callback =
     makeRequest P this
       \<lparr> method = ''GET'', path = ''/me'', contentType = JUndefined, data = JUndefined \<rparr>
       net (callback this)"

definition getPostForUser ::
  "platform \<Rightarrow> IDevJSClient \<Rightarrow> jsval \<Rightarrow> (request \<Rightarrow> transport) \<Rightarrow>
   (IDevJSClient \<Rightarrow> result \<Rightarrow> exn + 'a) \<Rightarrow> request option \<times> (exn + 'a)" where
  "getPostForUser P this options net callback =
     guard (enforce options [''userId'']) (\<lambda>_.
     guard (get options ''userId'') (\<lambda>userId.
       makeRequest P this
         \<lparr> method = ''GET'',
           path = ''/users/'' @ ToString userId @ ''/posts'',
           contentType = JUndefined,
           data = JUndefined \<rparr>
         net (callback this)))"

text \<open>The keys of the \<open>data\<close> literal of \<open>createPost\<close>, in the literal's order.\<close>

definition post_fields :: "string list" where
  "post_fields =
     [''title'', ''content'', ''contentFormat'', ''tags'', ''canonicalUrl'', ''publishStatus'',
      ''license'']"

definition createPost ::
  "platform \<Rightarrow> IDevJSClient \<Rightarrow> jsval \<Rightarrow> (request \<Rightarrow> transport) \<Rightarrow>
   (IDevJSClient \<Rightarrow> result \<Rightarrow> exn + 'a) \<Rightarrow> request option \<times> (exn + 'a)" where
  "createPost P this options net callback =
     guard (enforce options [''userId'']) (\<lambda>_.
     guard (get options ''userId'') (\<lambda>userId.
     guard (get options ''title'') (\<lambda>title.
     guard (get options ''content'') (\<lambda>content.
     guard (get options ''contentFormat'') (\<lambda>contentFormat.
     guard (get options ''tags'') (\<lambda>tags.
     guard (get options ''canonicalUrl'') (\<lambda>canonicalUrl.
     guard (get options ''publishStatus'') (\<lambda>publishStatus.
     guard (get options ''license'') (\<lambda>license.
       makeRequest P this
         \<lparr> method = ''POST'',
           path = ''/users/'' @ ToString userId @ ''/posts'',
           contentType = JUndefined,
           data = JObj [(''title'', title),
                        (''content'', content),
                        (''contentFormat'', contentFormat),
                        (''tags'', tags),
                        (''canonicalUrl'', canonicalUrl),
                        (''publishStatus'', publishStatus),
                        (''license'', license)] \<rparr>
         net (callback this))))))))))"

section \<open>Notions used in the statements\<close>

text \<open>The value a property read yields where it does not throw, \<open>undefined\<close> where it does.\<close>

definition field :: "jsval \<Rightarrow> string \<Rightarrow> jsval" where
  "field v k = (case get v k of Inl e \<Rightarrow> JUndefined | Inr x \<Rightarrow> x)"

text \<open>
  The value that the text \<open>JSON.stringify(v)\<close> denotes, that is, what \<open>JSON.parse\<close>
  reads back from it: a property whose value is \<open>undefined\<close> is left out, and an
  \<open>undefined\<close> array element is written as \<open>null\<close>.
\<close>

fun JSON_value :: "jsval \<Rightarrow> jsval"
  and JSON_props :: "(string \<times> jsval) list \<Rightarrow> (string \<times> jsval) list"
  and JSON_elems :: "jsval list \<Rightarrow> jsval list" where
  "JSON_value (JObj kvs) = JObj (JSON_props kvs)"
| "JSON_value (JArr xs) = JArr (JSON_elems xs)"
| "JSON_value v = v"
| "JSON_props [] = []"
| "JSON_props ((k, v) # kvs) =
     (if v = JUndefined then JSON_props kvs else (k, JSON_value v) # JSON_props kvs)"
| "JSON_elems [] = []"
| "JSON_elems (x # xs) = (if x = JUndefined then JNull else JSON_value x) # JSON_elems xs"

text \<open>JSON data: a value with no \<open>undefined\<close> anywhere in it.\<close>

fun json_data :: "jsval \<Rightarrow> bool"
  and json_data_props :: "(string \<times> jsval) list \<Rightarrow> bool"
  and json_data_elems :: "jsval list \<Rightarrow> bool" where
  "json_data JUndefined = False"
| "json_data (JObj kvs) = json_data_props kvs"
| "json_data (JArr xs) = json_data_elems xs"
| "json_data v = True"
| "json_data_props [] = True"
| "json_data_props ((k, v) # kvs) = (json_data v \<and> json_data_props kvs)"
| "json_data_elems [] = True"
| "json_data_elems (x # xs) = (json_data x \<and> json_data_elems xs)"

text \<open>The JSON document carried by the request that went out, if it carries one.\<close>

definition sent_json :: "request option \<Rightarrow> jsval option" where
  "sent_json sent =
     (case sent of
        None \<Rightarrow> None
      | Some req \<Rightarrow> (case req_body req of Some (Json d) \<Rightarrow> Some (JSON_value d) | _ \<Rightarrow> None))"

text \<open>
  The post fields that the caller supplied: those of \<open>post_fields\<close> that \<open>options\<close>
  has with a value other than \<open>undefined\<close>, each with its value as JSON.
\<close>

definition supplied :: "jsval \<Rightarrow> (string \<times> jsval) list" where
  "supplied options =
     map (\<lambda>k. (k, JSON_value (field options k)))
       (filter (\<lambda>k. field options k \<noteq> JUndefined) post_fields)"

text \<open>
  The request of a token acquisition: the token descriptor, with the form-encoded
  parameters as its body (nothing is written if that string is empty).
\<close>

definition token_request :: "platform \<Rightarrow> IDevJSClient \<Rightarrow> (string \<times> jsval) list \<Rightarrow> request" where
  "token_request P this params =
     outgoing this (token_descriptor P params)
       (if qs_stringify P params = [] then None else Some (Text (qs_stringify P params)))"

text \<open>The operations of the client that go to the network, with their arguments.\<close>

datatype operation =
    GetUser
  | GetPostForUser jsval
  | CreatePost jsval
  | ExchangeAuthorizationCode jsval jsval
  | ExchangeRefreshToken jsval

text \<open>A callback that returns what it was called with, and the client as it was then.\<close>

definition observe :: "IDevJSClient \<Rightarrow> result \<Rightarrow> exn + IDevJSClient \<times> result" where
  "observe this r = Inr (this, r)"

fun perform ::
  "platform \<Rightarrow> IDevJSClient \<Rightarrow> operation \<Rightarrow> (request \<Rightarrow> transport) \<Rightarrow>
   request option \<times> (exn + IDevJSClient \<times> result)" where
  "perform P this GetUser net = getUser P this net observe"
| "perform P this (GetPostForUser options) net = getPostForUser P this options net observe"
| "perform P this (CreatePost options) net = createPost P this options net observe"
| "perform P this (ExchangeAuthorizationCode code' redirectUrl) net =
     exchangeAuthorizationCode P this code' redirectUrl net observe"
| "perform P this (ExchangeRefreshToken refreshToken) net =
     exchangeRefreshToken P this refreshToken net observe"




text \<open>
  The request that \<open>createPost\<close> makes of its options: \<open>userId\<close> in the path, the
  seven post fields as they are read from \<open>options\<close> in the literal that is serialised.
\<close>

definition post_request :: "IDevJSClient \<Rightarrow> jsval \<Rightarrow> request" where
  "post_request this options =
     outgoing this
       \<lparr> method = ''POST'',
         path = ''/users/'' @ ToString (field options ''userId'') @ ''/posts'',
         contentType = JUndefined,
         data = JObj (map (\<lambda>k. (k, field options k)) post_fields) \<rparr>
       (Some (Json (JObj (map (\<lambda>k. (k, field options k)) post_fields))))"

section \<open>A runtime and a client for worked examples\<close>

text \<open>
  \<open>sample_parse\<close> agrees with \<open>JSON.parse\<close> on the texts the examples use: the
  JSON texts listed here, and texts that are not JSON at all, such as an HTML error page.
\<close>

definition sample_parse :: "string \<Rightarrow> jsval option" where
  \<open>sample_parse =
     map_of
       [(''{"errors":[{"message":"Not Found","code":404}]}'',
           JObj [(''errors'', JArr [JObj [(''message'', JStr ''Not Found''), (''code'', JNum 404)]])]),
        (''{"errors":[null]}'', JObj [(''errors'', JArr [JNull])]),
        (''{"errors":[{"message":"m"}]}'', JObj [(''errors'', JArr [JObj [(''message'', JStr ''m'')]])]),
        (''{"data":0}'', JObj [(''data'', JNum 0)]),
        (''{"data":{"id":"u1"}}'', JObj [(''data'', JObj [(''id'', JStr ''u1'')])]),
        (''{"access_token":"t2","refresh_token":"r2"}'',
           JObj [(''access_token'', JStr ''t2''), (''refresh_token'', JStr ''r2'')]),
        (''null'', JNull)]\<close>

text \<open>Form fields joined as \<open>k=v&k=v\<close>; the examples need no percent-escaping.\<close>

definition sample_qs :: "(string \<times> jsval) list \<Rightarrow> string" where
  "sample_qs params =
     join_with ''&''
       (map (\<lambda>(k, v). k @ ''='' @
               (case v of JStr s \<Rightarrow> s | JNum n \<Rightarrow> show_int n
                | JBool b \<Rightarrow> (if b then ''true'' else ''false'') | _ \<Rightarrow> []))
          params)"

definition sample_platform :: platform where
  "sample_platform =
     \<lparr> JSON_parse = sample_parse,
       qs_stringify = sample_qs,
       url_format = (\<lambda>u. protocol u @ ''://'' @ host u @ pathname u @ ''?'' @ sample_qs (query u)) \<rparr>"

definition sample_client :: IDevJSClient where
  "sample_client =
     \<lparr> this_options = JObj [(''clientId'', JStr ''id1''), (''clientSecret'', JStr ''s1'')],
       this_version = JStr ''v1'',
       this_clientId = JStr ''id1'',
       this_clientSecret = JStr ''s1'',
       this_accessToken = JStr ''t1'' \<rparr>"

text \<open>
  A runtime that accepts the request and a network that answers every request in the same
  way; the examples use it with paths and header values that the runtime does accept.
\<close>

definition respond_with :: "transport \<Rightarrow> request \<Rightarrow> transport" where
  "respond_with t req = t"

text \<open>The descriptor that \<open>getUser\<close> passes to \<open>_makeRequest\<close>.\<close>

definition sample_descriptor :: RequestDescriptor where
  "sample_descriptor =
     \<lparr>method = ''GET'', path = ''/me'', contentType = JUndefined, data = JUndefined\<rparr>"

section \<open>Basic facts\<close>

lemma makeRequest_sends:
  "write_data (data options) = Inr written \<Longrightarrow>
   makeRequest P this options net callback =
     (if net (outgoing this options written) = Refused then None
      else Some (outgoing this options written),
      on_transport P (net (outgoing this options written)) callback)"
  by (simp add: makeRequest_def Let_def)

lemma falsy_iff: "\<not> truthy v \<longleftrightarrow> v \<in> {JUndefined, JNull, JBool False, JNum 0, JStr []}"
  by (cases v) auto

lemma get_truthy: "truthy v \<Longrightarrow> get v k = Inr (field v k)"
  by (cases v) (simp_all add: field_def)

lemma enforce_falsy_first:
  "truthy options \<Longrightarrow> \<not> truthy (field options k) \<Longrightarrow>
   enforce options (k # ks) = Inl (Throw (missing_parameter k))"
  by (simp add: enforce_def bind_def get_truthy)

lemma enforce_truthy_first:
  "truthy options \<Longrightarrow> truthy (field options k) \<Longrightarrow>
   enforce options (k # ks) = enforce options ks"
  by (simp add: enforce_def bind_def get_truthy)

lemma get_defined: "v \<noteq> JNull \<Longrightarrow> v \<noteq> JUndefined \<Longrightarrow> get v k = Inr (field v k)"
  by (cases v) (simp_all add: field_def)

lemma get_other_key: "get v k = Inr x \<Longrightarrow> get v k' = Inr (field v k')"
  by (cases v) (simp_all add: field_def)

lemma sample_descriptor_written: "write_data (data sample_descriptor) = Inr None"
  by (simp add: sample_descriptor_def write_data_def)

lemma write_data_string: "write_data (JStr s) = Inr (if s = [] then None else Some (Text s))"
  by (simp add: write_data_def)

lemma bind_Inr [simp]: "bind (Inr x) f = f x"
  by (simp add: bind_def)

lemma bind_Inl [simp]: "bind (Inl e) f = Inl e"
  by (simp add: bind_def)

lemma bind_eq_Inr: "bind m f = Inr y \<longleftrightarrow> (\<exists>x. m = Inr x \<and> f x = Inr y)"
  by (cases m) (simp_all add: bind_def)

lemma bind_eq_Inl: "bind m f = Inl e \<longleftrightarrow> m = Inl e \<or> (\<exists>x. m = Inr x \<and> f x = Inl e)"
  by (cases m) (simp_all add: bind_def)

text \<open>The callback is called at most once, and last: any callback can be put in afterwards.\<close>

lemma on_end_bind:
  "on_end P statusCode chunks callback = bind (on_end P statusCode chunks Inr) callback"
  by (simp add: on_end_def bind_def Let_def split: option.splits sum.splits)

lemma on_transport_bind: "on_transport P t callback = bind (on_transport P t Inr) callback"
proof (cases t)
  case Refused
  then show ?thesis by (simp add: on_transport_def)
next
  case (NetError msg)
  then show ?thesis by (simp add: on_transport_def bind_def)
next
  case (Response statusCode chunks)
  then show ?thesis
    using on_end_bind [of P statusCode chunks callback] by (simp add: on_transport_def)
qed

text \<open>A success value comes from a 2xx response, and its properties can be read.\<close>

lemma on_end_Success:
  "on_end P statusCode chunks Inr = Inr (Success dat) \<Longrightarrow>
   \<exists>payload d. JSON_parse P (concat chunks) = Some payload \<and> statusCode div 100 = 2 \<and>
     get payload ''data'' = Inr d \<and> dat = or_else d payload"
  by (auto simp add: on_end_def Let_def bind_eq_Inr split: option.splits if_splits)

lemma on_end_Success_readable:
  assumes "on_end P statusCode chunks Inr = Inr (Success dat)"
  shows "get dat k = Inr (field dat k)"
proof -
  from on_end_Success [OF assms] obtain payload d
    where d: "get payload ''data'' = Inr d" and dat: "dat = or_else d payload"
    by blast
  show ?thesis
  proof (cases "truthy d")
    case True
    with dat show ?thesis by (simp add: or_else_def get_truthy)
  next
    case False
    with dat d show ?thesis by (simp add: or_else_def get_other_key)
  qed
qed

lemma on_transport_Success_readable:
  "on_transport P t Inr = Inr (Success dat) \<Longrightarrow> get dat k = Inr (field dat k)"
  by (cases t) (simp_all add: on_transport_def on_end_Success_readable)

text \<open>A request that is answered, by an error or by a response, was not refused.\<close>

lemma on_transport_Inr_sent: "on_transport P t callback = Inr r \<Longrightarrow> t \<noteq> Refused"
  by (auto simp add: on_transport_def)

lemma acquireAccessToken_sends:
  "acquireAccessToken P this params net callback =
     (if net (token_request P this params) = Refused then None
      else Some (token_request P this params),
      bind (on_transport P (net (token_request P this params)) Inr)
        (on_token_result this callback))"
proof -
  have w: "write_data (data (token_descriptor P params)) =
             Inr (if qs_stringify P params = [] then None else Some (Text (qs_stringify P params)))"
    by (simp add: token_descriptor_def write_data_string)
  show ?thesis
    unfolding acquireAccessToken_def token_request_def makeRequest_sends [OF w]
    by (subst on_transport_bind) (rule refl)
qed

text \<open>The only exception that the response handlers raise themselves is a \<open>TypeError\<close>.\<close>

lemma get_Inl: "get v k = Inl x \<Longrightarrow> x = TypeError"
  by (cases v) simp_all

lemma index0_Inl: "index0 v = Inl x \<Longrightarrow> x = TypeError"
  by (cases v) simp_all

lemma on_end_Inl: "on_end P statusCode chunks Inr = Inl x \<Longrightarrow> x = TypeError"
  by (auto simp add: on_end_def Let_def bind_eq_Inl split: option.splits if_splits
      dest: get_Inl index0_Inl)

lemma on_transport_Inl: "on_transport P t Inr = Inl x \<Longrightarrow> x = TypeError"
  by (cases t) (simp_all add: on_transport_def on_end_Inl)

lemma on_token_result_Failure [simp]:
  "on_token_result this callback (Failure e) = callback this (Failure e)"
  by (simp add: on_token_result_def)

lemma on_token_result_Success:
  "on_token_result this callback (Success d) =
     bind (get d ''access_token'') (\<lambda>token. callback (this\<lparr>this_accessToken := token\<rparr>) (Success d))"
  by (simp add: on_token_result_def)

lemma on_token_result_observe:
  "on_token_result this observe (Success d) = Inl TypeError \<or>
   (\<exists>c. on_token_result this observe (Success d) = Inr (c, Success d))"
  by (cases "get d ''access_token''") (auto simp add: on_token_result_Success observe_def dest: get_Inl)

lemma acquireAccessToken_observe_Inl:
  assumes "snd (acquireAccessToken P this params net observe) = Inl x"
  shows "x = TypeError"
proof -
  from assms have
    "bind (on_transport P (net (token_request P this params)) Inr) (on_token_result this observe) = Inl x"
    by (simp add: acquireAccessToken_sends)
  then consider "on_transport P (net (token_request P this params)) Inr = Inl x"
    | r where "on_token_result this observe r = Inl x"
    by (auto simp add: bind_eq_Inl)
  then show ?thesis
  proof cases
    case 1
    then show ?thesis by (rule on_transport_Inl)
  next
    case 2
    show ?thesis
    proof (cases r)
      case (Failure e)
      with 2 show ?thesis by (simp add: observe_def)
    next
      case (Success d)
      with 2 on_token_result_observe [of this d] show ?thesis by auto
    qed
  qed
qed

text \<open>The headers of the requests that the operations send.\<close>

lemma outgoing_headers:
  "req_headers (outgoing this options written) =
     [(''Content-Type'', or_else (contentType options) (JStr ''application/json'')),
      (''Authorization'', JStr (''Bearer '' @ ToString (this_accessToken this))),
      (''Accept'', JStr ''application/json''),
      (''Accept-Charset'', JStr ''utf-8'')]"
  by (simp add: outgoing_def)

lemma makeRequest_fst:
  "fst (makeRequest P this options net callback) = Some req \<Longrightarrow>
   \<exists>written. write_data (data options) = Inr written \<and> req = outgoing this options written"
  by (auto simp add: makeRequest_def Let_def split: sum.splits if_splits)

lemma guard_fst:
  "fst (guard m f) = Some req \<Longrightarrow> \<exists>v. m = Inr v \<and> fst (f v) = Some req"
  by (cases m) (simp_all add: guard_def)

lemma getUser_headers:
  "fst (getUser P this net callback) = Some req \<Longrightarrow>
   req_headers req =
     [(''Content-Type'', JStr ''application/json''),
      (''Authorization'', JStr (''Bearer '' @ ToString (this_accessToken this))),
      (''Accept'', JStr ''application/json''),
      (''Accept-Charset'', JStr ''utf-8'')]"
  unfolding getUser_def
  by (drule makeRequest_fst) (auto simp add: outgoing_headers or_else_def)

lemma getPostForUser_headers:
  "fst (getPostForUser P this options net callback) = Some req \<Longrightarrow>
   req_headers req =
     [(''Content-Type'', JStr ''application/json''),
      (''Authorization'', JStr (''Bearer '' @ ToString (this_accessToken this))),
      (''Accept'', JStr ''application/json''),
      (''Accept-Charset'', JStr ''utf-8'')]"
  unfolding getPostForUser_def
  by (auto dest!: guard_fst makeRequest_fst simp add: outgoing_headers or_else_def)

lemma createPost_headers:
  "fst (createPost P this options net callback) = Some req \<Longrightarrow>
   req_headers req =
     [(''Content-Type'', JStr ''application/json''),
      (''Authorization'', JStr (''Bearer '' @ ToString (this_accessToken this))),
      (''Accept'', JStr ''application/json''),
      (''Accept-Charset'', JStr ''utf-8'')]"
  unfolding createPost_def
  by (auto dest!: guard_fst makeRequest_fst simp add: outgoing_headers or_else_def)

lemma acquireAccessToken_headers:
  "fst (acquireAccessToken P this params net callback) = Some req \<Longrightarrow>
   req_headers req =
     [(''Content-Type'', JStr ''application/x-www-form-urlencoded''),
      (''Authorization'', JStr (''Bearer '' @ ToString (this_accessToken this))),
      (''Accept'', JStr ''application/json''),
      (''Accept-Charset'', JStr ''utf-8'')]"
  by (auto simp add: acquireAccessToken_sends token_request_def outgoing_headers
      token_descriptor_def or_else_def split: if_splits)

lemma new_IDevJSClient_token: "new_IDevJSClient arg = Inr fresh \<Longrightarrow> this_accessToken fresh = JStr []"
  by (auto simp add: new_IDevJSClient_def Let_def bind_eq_Inr)

text \<open>Serialisation leaves JSON data as it is; the body of \<open>createPost\<close>.\<close>

lemma JSON_value_json_data:
  "json_data v \<Longrightarrow> JSON_value v = v"
  "json_data_props kvs \<Longrightarrow> JSON_props kvs = kvs"
  "json_data_elems xs \<Longrightarrow> JSON_elems xs = xs"
  by (induction v and kvs and xs rule: json_data_json_data_props_json_data_elems.induct) auto

lemma JSON_props_fields:
  "JSON_props (map (\<lambda>k. (k, f k)) ks) =
     map (\<lambda>k. (k, JSON_value (f k))) (filter (\<lambda>k. f k \<noteq> JUndefined) ks)"
  by (induction ks) simp_all

lemma map_of_fields:
  "map_of (map (\<lambda>k. (k, g k)) ks) k = (if k \<in> set ks then Some (g k) else None)"
  by (induction ks) simp_all

lemma enforce_passes:
  "truthy options \<Longrightarrow> truthy (field options k) \<Longrightarrow> enforce options [k] = Inr ()"
  by (simp add: enforce_def bind_def get_truthy)

lemma createPost_sends:
  assumes "truthy options" and "truthy (field options ''userId'')"
  shows "createPost P this options net callback =
     makeRequest P this
       \<lparr> method = ''POST'',
         path = ''/users/'' @ ToString (field options ''userId'') @ ''/posts'',
         contentType = JUndefined,
         data = JObj (map (\<lambda>k. (k, field options k)) post_fields) \<rparr>
       net (callback this)"
  using assms
  by (simp add: createPost_def guard_def enforce_passes get_truthy post_fields_def)





lemma enforce_single_Inr:
  "enforce options [k] = Inr u \<Longrightarrow> truthy options \<and> truthy (field options k)"
  by (auto simp add: enforce_def get_truthy split: if_splits)


lemma createPost_fst:
  assumes "fst (createPost P this options net callback) = Some req"
  shows "req = post_request this options"
proof -
  from assms obtain u where u: "enforce options [''userId''] = Inr u"
    unfolding createPost_def by (auto dest!: guard_fst)
  then have t: "truthy options" "truthy (field options ''userId'')"
    using enforce_single_Inr by blast+
  from assms obtain written where
    "write_data (JObj (map (\<lambda>k. (k, field options k)) post_fields)) = Inr written"
    "req = outgoing this
       \<lparr> method = ''POST'',
         path = ''/users/'' @ ToString (field options ''userId'') @ ''/posts'',
         contentType = JUndefined,
         data = JObj (map (\<lambda>k. (k, field options k)) post_fields) \<rparr> written"
    unfolding createPost_sends [OF t] by (auto dest!: makeRequest_fst)
  then show ?thesis by (simp add: post_request_def write_data_def)
qed

lemma createPost_accepted:
  assumes "truthy options" and "truthy (field options ''userId'')"
    and "net (post_request this options) \<noteq> Refused"
  shows "fst (createPost P this options net callback) = Some (post_request this options)"
proof -
  have w: "write_data (JObj (map (\<lambda>k. (k, field options k)) post_fields)) =
             Inr (Some (Json (JObj (map (\<lambda>k. (k, field options k)) post_fields))))"
    by (simp add: write_data_def)
  from assms(3) show ?thesis
    by (simp add: createPost_sends [OF assms(1,2)] makeRequest_def w Let_def post_request_def)
qed

lemma createPost_refused:
  assumes "truthy options" and "truthy (field options ''userId'')"
    and "net (post_request this options) = Refused"
  shows "createPost P this options net callback = (None, Inl TypeError)"
proof -
  have w: "write_data (JObj (map (\<lambda>k. (k, field options k)) post_fields)) =
             Inr (Some (Json (JObj (map (\<lambda>k. (k, field options k)) post_fields))))"
    by (simp add: write_data_def)
  from assms(3) have
    "net (outgoing this
       \<lparr> method = ''POST'',
         path = ''/users/'' @ ToString (field options ''userId'') @ ''/posts'',
         contentType = JUndefined,
         data = JObj (map (\<lambda>k. (k, field options k)) post_fields) \<rparr>
       (Some (Json (JObj (map (\<lambda>k. (k, field options k)) post_fields))))) = Refused"
    by (simp add: post_request_def)
  then show ?thesis
    by (simp add: createPost_sends [OF assms(1,2)] makeRequest_def w Let_def on_transport_def)
qed

lemma sent_json_post_request:
  "sent_json (Some (post_request this options)) = Some (JObj (supplied options))"
  by (simp add: sent_json_def post_request_def outgoing_def supplied_def JSON_props_fields)









section \<open>Unparsable response bodies\<close>

text \<open>
  C4. When the body of a response is not valid JSON, the callback receives the error with
  message \<open>Failed to parse response\<close> and code \<open>-1\<close>, whatever the status code is
  (500 included): the parse is attempted first, and no branch on the status family is
  reached when it fails.
\<close>

theorem parse_failure_any_status:
  "JSON_parse P (concat chunks) = None \<Longrightarrow>
   write_data (data options) = Inr written \<Longrightarrow>
   net (outgoing this options written) = Response statusCode chunks \<Longrightarrow>
   makeRequest P this options net callback =
     (Some (outgoing this options written),
      callback (Failure (IDevJSError (JStr ''Failed to parse response'') (JNum (- 1)))))"
  by (simp add: makeRequest_sends on_transport_def on_end_def DEFAULT_ERROR_CODE_def)

theorem parse_failure_any_status_witness:
  "JSON_parse sample_platform (concat [''<html>'', ''Bad Gateway</html>'']) = None \<and>
   write_data (data sample_descriptor) = Inr None \<and>
   makeRequest sample_platform sample_client sample_descriptor
       (respond_with (Response 500 [''<html>'', ''Bad Gateway</html>''])) Inr =
     (Some (outgoing sample_client sample_descriptor None),
      Inr (Failure (IDevJSError (JStr ''Failed to parse response'') (JNum (- 1)))))"
proof -
  have unparsable: "JSON_parse sample_platform (concat [''<html>'', ''Bad Gateway</html>'']) = None"
    by (simp add: sample_platform_def sample_parse_def)
  have answer:
    "respond_with (Response 500 [''<html>'', ''Bad Gateway</html>''])
       (outgoing sample_client sample_descriptor None) =
     Response 500 [''<html>'', ''Bad Gateway</html>'']"
    by (simp add: respond_with_def)
  show ?thesis
    using unparsable sample_descriptor_written answer
      parse_failure_any_status
        [of sample_platform "[''<html>'', ''Bad Gateway</html>'']" sample_descriptor None
            "respond_with (Response 500 [''<html>'', ''Bad Gateway</html>''])" sample_client 500 Inr]
    by simp
qed

section \<open>Required parameters\<close>

text \<open>
  C10. \<open>_enforce\<close> takes every falsy value of a required field for a missing one. With
  \<open>userId\<close> absent, \<open>null\<close>, \<open>false\<close>, \<open>0\<close> or the empty string,
  \<open>createPost\<close> and \<open>getPostForUser\<close> throw the same missing-parameter error and
  send nothing; the constructor does the same for \<open>clientId\<close> and for
  \<open>clientSecret\<close>.
\<close>

theorem falsy_required_field_is_missing:
  \<open>(truthy options \<and>
    field options ''userId'' \<in> {JUndefined, JNull, JBool False, JNum 0, JStr ''''} \<longrightarrow>
      createPost P this options net callback =
        (None, Inl (Throw (IDevJSError (JStr ''Missing required parameter "userId"'') (JNum (- 1))))) \<and>
      getPostForUser P this options net callback =
        (None, Inl (Throw (IDevJSError (JStr ''Missing required parameter "userId"'') (JNum (- 1)))))) \<and>
   (truthy arg \<and>
    field arg ''clientId'' \<in> {JUndefined, JNull, JBool False, JNum 0, JStr ''''} \<longrightarrow>
      new_IDevJSClient arg =
        Inl (Throw (IDevJSError (JStr ''Missing required parameter "clientId"'') (JNum (- 1))))) \<and>
   (truthy arg \<and> truthy (field arg ''clientId'') \<and>
    field arg ''clientSecret'' \<in> {JUndefined, JNull, JBool False, JNum 0, JStr ''''} \<longrightarrow>
      new_IDevJSClient arg =
        Inl (Throw (IDevJSError (JStr ''Missing required parameter "clientSecret"'') (JNum (- 1)))))\<close>
proof (intro conjI impI)
  assume a: "truthy options \<and>
    field options ''userId'' \<in> {JUndefined, JNull, JBool False, JNum 0, JStr ''''}"
  then have e: "enforce options [''userId''] = Inl (Throw (missing_parameter ''userId''))"
    using enforce_falsy_first [of options "''userId''" "[]"] by (simp add: falsy_iff)
  show \<open>createPost P this options net callback =
        (None, Inl (Throw (IDevJSError (JStr ''Missing required parameter "userId"'') (JNum (- 1)))))\<close>
    by (simp add: createPost_def guard_def e missing_parameter_def DEFAULT_ERROR_CODE_def)
  show \<open>getPostForUser P this options net callback =
        (None, Inl (Throw (IDevJSError (JStr ''Missing required parameter "userId"'') (JNum (- 1)))))\<close>
    by (simp add: getPostForUser_def guard_def e missing_parameter_def DEFAULT_ERROR_CODE_def)
next
  assume a: "truthy arg \<and>
    field arg ''clientId'' \<in> {JUndefined, JNull, JBool False, JNum 0, JStr ''''}"
  then have u: "arg \<noteq> JUndefined" by auto
  from a have e:
    "enforce arg [''clientId'', ''clientSecret''] = Inl (Throw (missing_parameter ''clientId''))"
    using enforce_falsy_first [of arg "''clientId''" "[''clientSecret'']"] by (simp add: falsy_iff)
  show \<open>new_IDevJSClient arg =
        Inl (Throw (IDevJSError (JStr ''Missing required parameter "clientId"'') (JNum (- 1))))\<close>
    by (simp add: new_IDevJSClient_def u e bind_def missing_parameter_def DEFAULT_ERROR_CODE_def)
next
  assume a: "truthy arg \<and> truthy (field arg ''clientId'') \<and>
    field arg ''clientSecret'' \<in> {JUndefined, JNull, JBool False, JNum 0, JStr ''''}"
  then have u: "arg \<noteq> JUndefined" by auto
  from a have "enforce arg [''clientId'', ''clientSecret''] = enforce arg [''clientSecret'']"
    using enforce_truthy_first [of arg "''clientId''" "[''clientSecret'']"] by simp
  with a have e:
    "enforce arg [''clientId'', ''clientSecret''] = Inl (Throw (missing_parameter ''clientSecret''))"
    using enforce_falsy_first [of arg "''clientSecret''" "[]"] by (simp add: falsy_iff)
  show \<open>new_IDevJSClient arg =
        Inl (Throw (IDevJSError (JStr ''Missing required parameter "clientSecret"'') (JNum (- 1))))\<close>
    by (simp add: new_IDevJSClient_def u e bind_def missing_parameter_def DEFAULT_ERROR_CODE_def)
qed

theorem falsy_required_field_is_missing_witness:
  \<open>createPost sample_platform sample_client (JObj [(''userId'', JStr ''''), (''title'', JStr ''Hi'')])
       (\<lambda>req. NetError ''unreachable'') observe =
     (None, Inl (Throw (IDevJSError (JStr ''Missing required parameter "userId"'') (JNum (- 1))))) \<and>
   getPostForUser sample_platform sample_client (JObj [(''userId'', JNum 0)])
       (\<lambda>req. NetError ''unreachable'') observe =
     getPostForUser sample_platform sample_client (JObj [])
       (\<lambda>req. NetError ''unreachable'') observe \<and>
   new_IDevJSClient (JObj [(''clientId'', JStr ''''), (''clientSecret'', JStr ''s1'')]) =
     Inl (Throw (IDevJSError (JStr ''Missing required parameter "clientId"'') (JNum (- 1)))) \<and>
   new_IDevJSClient (JObj [(''clientId'', JStr ''id1''), (''clientSecret'', JStr '''')]) =
     Inl (Throw (IDevJSError (JStr ''Missing required parameter "clientSecret"'') (JNum (- 1))))\<close>
  using
    falsy_required_field_is_missing
      [of "JObj [(''userId'', JStr ''''), (''title'', JStr ''Hi'')]"
          sample_platform sample_client "\<lambda>req. NetError ''unreachable''" observe
          "JObj [(''clientId'', JStr ''''), (''clientSecret'', JStr ''s1'')]"]
    falsy_required_field_is_missing
      [of "JObj [(''userId'', JNum 0)]"
          sample_platform sample_client "\<lambda>req. NetError ''unreachable''" observe
          "JObj [(''clientId'', JStr ''id1''), (''clientSecret'', JStr '''')]"]
    falsy_required_field_is_missing
      [of "JObj []"
          sample_platform sample_client "\<lambda>req. NetError ''unreachable''" observe
          "JObj [(''clientId'', JStr ''id1''), (''clientSecret'', JStr '''')]"]
  by (simp add: field_def)

section \<open>Successful responses\<close>

text \<open>
  C1, as the code has it. For a response with a 2xx status whose body parses as a JSON
  value other than \<open>null\<close>, the callback receives the body's \<open>data\<close> field when
  that field is truthy, and the whole parsed body otherwise: also when \<open>data\<close> is
  present but \<open>null\<close>, \<open>false\<close>, \<open>0\<close> or the empty string.
\<close>

theorem success_payload:
  "JSON_parse P (concat chunks) = Some payload \<Longrightarrow>
   statusCode div 100 = 2 \<Longrightarrow>
   payload \<noteq> JNull \<Longrightarrow> payload \<noteq> JUndefined \<Longrightarrow>
   write_data (data options) = Inr written \<Longrightarrow>
   net (outgoing this options written) = Response statusCode chunks \<Longrightarrow>
   makeRequest P this options net callback =
     (Some (outgoing this options written),
      callback (Success (if truthy (field payload ''data'') then field payload ''data'' else payload)))"
  by (simp add: makeRequest_sends on_transport_def on_end_def get_defined bind_def or_else_def)

theorem success_payload_witness:
  \<open>JSON_parse sample_platform (concat [''{"data":'', ''{"id":"u1"}}'']) =
     Some (JObj [(''data'', JObj [(''id'', JStr ''u1'')])]) \<and>
   (200::nat) div 100 = 2 \<and>
   write_data (data sample_descriptor) = Inr None \<and>
   makeRequest sample_platform sample_client sample_descriptor
       (respond_with (Response 200 [''{"data":'', ''{"id":"u1"}}''])) Inr =
     (Some (outgoing sample_client sample_descriptor None),
      Inr (Success (JObj [(''id'', JStr ''u1'')])))\<close>
proof -
  have parsed: \<open>JSON_parse sample_platform (concat [''{"data":'', ''{"id":"u1"}}'']) =
     Some (JObj [(''data'', JObj [(''id'', JStr ''u1'')])])\<close>
    by (simp add: sample_platform_def sample_parse_def)
  have family: "(200::nat) div 100 = 2" by simp
  show ?thesis
    using parsed family sample_descriptor_written
      success_payload
        [of sample_platform \<open>[''{"data":'', ''{"id":"u1"}}'']\<close>
            \<open>JObj [(''data'', JObj [(''id'', JStr ''u1'')])]\<close> 200 sample_descriptor None
            \<open>respond_with (Response 200 [''{"data":'', ''{"id":"u1"}}''])\<close> sample_client Inr]
    by (simp add: field_def respond_with_def)
qed

text \<open>
  Without the restriction to truthy values the property fails, where \<open>data\<close> is
  present and falsy: for the body \<open>{"data":0}\<close> the callback receives the whole body,
  not \<open>0\<close>. And for the body \<open>null\<close> reading \<open>payload.data\<close> throws, so
  that the callback is never called.
\<close>

theorem success_payload_counterexample:
  \<open>JSON_parse sample_platform (concat [''{"data":0}'']) = Some (JObj [(''data'', JNum 0)]) \<and>
   get (JObj [(''data'', JNum 0)]) ''data'' = Inr (JNum 0) \<and>
   snd (makeRequest sample_platform sample_client sample_descriptor
          (respond_with (Response 200 [''{"data":0}''])) Inr) =
     Inr (Success (JObj [(''data'', JNum 0)])) \<and>
   JSON_parse sample_platform (concat [''null'']) = Some JNull \<and>
   snd (makeRequest sample_platform sample_client sample_descriptor
          (respond_with (Response 200 [''null''])) Inr) = Inl TypeError\<close>
  by (simp add: makeRequest_sends [OF sample_descriptor_written] on_transport_def on_end_def
      sample_platform_def sample_parse_def bind_def or_else_def respond_with_def)

section \<open>Error responses\<close>

text \<open>
  C3, as the code has it. For a response of status family 4 or 5 whose body parses as JSON
  with a non-empty \<open>errors\<close> array whose first element is not \<open>null\<close>, the callback
  receives the error made of that element's \<open>message\<close> and \<open>code\<close>. In particular a
  404 response with the body \<open>{"errors":[{"message":"Not Found","code":404}]}\<close> yields the
  error with message \<open>Not Found\<close> and code \<open>404\<close>.
\<close>

theorem service_error_passthrough:
  \<open>(JSON_parse P (concat chunks) = Some payload \<and>
    (statusCode div 100 = 4 \<or> statusCode div 100 = 5) \<and>
    get payload ''errors'' = Inr (JArr (err # errs)) \<and> err \<noteq> JNull \<and> err \<noteq> JUndefined \<and>
    write_data (data options) = Inr written \<and>
    net (outgoing this options written) = Response statusCode chunks \<longrightarrow>
      makeRequest P this options net callback =
        (Some (outgoing this options written),
         callback (Failure (IDevJSError (field err ''message'') (field err ''code''))))) \<and>
   (JSON_parse P ''{"errors":[{"message":"Not Found","code":404}]}'' =
      Some (JObj [(''errors'', JArr [JObj [(''message'', JStr ''Not Found''), (''code'', JNum 404)]])]) \<and>
    write_data (data options) = Inr written \<and>
    net (outgoing this options written) =
      Response 404 [''{"errors":[{"message":"Not Found","code":404}]}''] \<longrightarrow>
      makeRequest P this options net callback =
        (Some (outgoing this options written),
         callback (Failure (IDevJSError (JStr ''Not Found'') (JNum 404)))))\<close>
  by (simp add: makeRequest_sends on_transport_def on_end_def get_defined bind_def)

theorem service_error_passthrough_witness:
  \<open>JSON_parse sample_platform (concat [''{"errors":[{"message":'', ''"Not Found","code":404}]}'']) =
     Some (JObj [(''errors'', JArr [JObj [(''message'', JStr ''Not Found''), (''code'', JNum 404)]])]) \<and>
   makeRequest sample_platform sample_client sample_descriptor
       (respond_with (Response 503 [''{"errors":[{"message":'', ''"Not Found","code":404}]}''])) Inr =
     (Some (outgoing sample_client sample_descriptor None),
      Inr (Failure (IDevJSError (JStr ''Not Found'') (JNum 404)))) \<and>
   makeRequest sample_platform sample_client sample_descriptor
       (respond_with (Response 404 [''{"errors":[{"message":"Not Found","code":404}]}''])) Inr =
     (Some (outgoing sample_client sample_descriptor None),
      Inr (Failure (IDevJSError (JStr ''Not Found'') (JNum 404))))\<close>
  using sample_descriptor_written
    service_error_passthrough
      [of sample_platform \<open>[''{"errors":[{"message":'', ''"Not Found","code":404}]}'']\<close>
          \<open>JObj [(''errors'', JArr [JObj [(''message'', JStr ''Not Found''), (''code'', JNum 404)]])]\<close>
          503 \<open>JObj [(''message'', JStr ''Not Found''), (''code'', JNum 404)]\<close> \<open>[]\<close>
          sample_descriptor None
          \<open>respond_with (Response 503 [''{"errors":[{"message":'', ''"Not Found","code":404}]}''])\<close>
          sample_client Inr]
    service_error_passthrough
      [of sample_platform \<open>[''{"errors":[{"message":"Not Found","code":404}]}'']\<close>
          \<open>JObj [(''errors'', JArr [JObj [(''message'', JStr ''Not Found''), (''code'', JNum 404)]])]\<close>
          404 \<open>JObj [(''message'', JStr ''Not Found''), (''code'', JNum 404)]\<close> \<open>[]\<close>
          sample_descriptor None
          \<open>respond_with (Response 404 [''{"errors":[{"message":"Not Found","code":404}]}''])\<close>
          sample_client Inr]
  by (simp add: field_def sample_platform_def sample_parse_def respond_with_def)

text \<open>
  Without that restriction the property fails, for a non-empty \<open>errors\<close> array whose
  first element is \<open>null\<close>: reading \<open>err.message\<close> throws, and the callback is
  never called.
\<close>

theorem service_error_passthrough_counterexample:
  \<open>JSON_parse sample_platform (concat [''{"errors":[null]}'']) =
     Some (JObj [(''errors'', JArr [JNull])]) \<and>
   makeRequest sample_platform sample_client sample_descriptor
       (respond_with (Response 404 [''{"errors":[null]}''])) Inr =
     (Some (outgoing sample_client sample_descriptor None), Inl TypeError)\<close>
  by (simp add: makeRequest_sends [OF sample_descriptor_written] on_transport_def on_end_def
      sample_platform_def sample_parse_def bind_def respond_with_def)

section \<open>Token acquisition and the stored token\<close>

text \<open>
  C2. Every token acquisition, by authorization code or by refresh token, goes through
  \<open>_acquireAccessToken\<close>. When the request delivers a success value, the callback is
  called with that value and with the client's token already set to the value's
  \<open>access_token\<close>; when it delivers an error, the callback is called with the error and
  with the client unchanged, whatever its token was.
\<close>

theorem token_written_on_success:
  "(on_transport P (net (token_request P this params)) Inr = Inr (Success dat) \<longrightarrow>
      acquireAccessToken P this params net callback =
        (Some (token_request P this params),
         callback (this\<lparr>this_accessToken := field dat ''access_token''\<rparr>) (Success dat))) \<and>
   (on_transport P (net (token_request P this params)) Inr = Inr (Failure err) \<longrightarrow>
      acquireAccessToken P this params net callback =
        (Some (token_request P this params), callback this (Failure err))) \<and>
   exchangeAuthorizationCode P this code' redirectUrl net callback =
     acquireAccessToken P this
       [(''code'', code'),
        (''client_id'', this_clientId this),
        (''client_secret'', this_clientSecret this),
        (''grant_type'', JStr ''authorization_code''),
        (''redirect_uri'', redirectUrl)]
       net callback \<and>
   exchangeRefreshToken P this refreshToken net callback =
     acquireAccessToken P this
       [(''refresh_token'', refreshToken),
        (''client_id'', this_clientId this),
        (''client_secret'', this_clientSecret this),
        (''grant_type'', JStr ''refresh_token'')]
       net callback"
proof (intro conjI impI)
  assume s: "on_transport P (net (token_request P this params)) Inr = Inr (Success dat)"
  show "acquireAccessToken P this params net callback =
        (Some (token_request P this params),
         callback (this\<lparr>this_accessToken := field dat ''access_token''\<rparr>) (Success dat))"
    by (simp add: acquireAccessToken_sends s on_token_result_Success
        on_transport_Success_readable [OF s] on_transport_Inr_sent [OF s])
next
  assume f: "on_transport P (net (token_request P this params)) Inr = Inr (Failure err)"
  show "acquireAccessToken P this params net callback =
        (Some (token_request P this params), callback this (Failure err))"
    by (simp add: acquireAccessToken_sends f on_transport_Inr_sent [OF f])
qed (simp_all add: exchangeAuthorizationCode_def exchangeRefreshToken_def)

theorem token_written_on_success_witness:
  \<open>exchangeRefreshToken sample_platform sample_client (JStr ''r1'')
       (respond_with (Response 200 [''{"access_token":"t2","refresh_token":"r2"}''])) observe =
     (Some (token_request sample_platform sample_client
              [(''refresh_token'', JStr ''r1''), (''client_id'', JStr ''id1''),
               (''client_secret'', JStr ''s1''), (''grant_type'', JStr ''refresh_token'')]),
      Inr (sample_client\<lparr>this_accessToken := JStr ''t2''\<rparr>,
           Success (JObj [(''access_token'', JStr ''t2''), (''refresh_token'', JStr ''r2'')]))) \<and>
   exchangeAuthorizationCode sample_platform sample_client (JStr ''c1'') (JStr ''http://cb'')
       (respond_with (NetError ''socket hang up'')) observe =
     (Some (token_request sample_platform sample_client
              [(''code'', JStr ''c1''), (''client_id'', JStr ''id1''), (''client_secret'', JStr ''s1''),
               (''grant_type'', JStr ''authorization_code''), (''redirect_uri'', JStr ''http://cb'')]),
      Inr (sample_client, Failure (IDevJSError (JStr ''socket hang up'') (JNum (- 1)))))\<close>
proof -
  have ok:
    \<open>on_transport sample_platform
       (respond_with (Response 200 [''{"access_token":"t2","refresh_token":"r2"}''])
          (token_request sample_platform sample_client
             [(''refresh_token'', JStr ''r1''), (''client_id'', this_clientId sample_client),
              (''client_secret'', this_clientSecret sample_client),
              (''grant_type'', JStr ''refresh_token'')]))
       Inr =
     Inr (Success (JObj [(''access_token'', JStr ''t2''), (''refresh_token'', JStr ''r2'')]))\<close>
    by (simp add: respond_with_def on_transport_def on_end_def sample_platform_def sample_parse_def
        bind_def or_else_def)
  have failed:
    \<open>on_transport sample_platform
       (respond_with (NetError ''socket hang up'')
          (token_request sample_platform sample_client
             [(''code'', JStr ''c1''), (''client_id'', this_clientId sample_client),
              (''client_secret'', this_clientSecret sample_client),
              (''grant_type'', JStr ''authorization_code''), (''redirect_uri'', JStr ''http://cb'')]))
       Inr =
     Inr (Failure (IDevJSError (JStr ''socket hang up'') (JNum (- 1))))\<close>
    by (simp add: respond_with_def on_transport_def DEFAULT_ERROR_CODE_def)
  have ids: "this_clientId sample_client = JStr ''id1''" "this_clientSecret sample_client = JStr ''s1''"
    by (simp_all add: sample_client_def)
  show ?thesis
    using
      token_written_on_success
        [of sample_platform
            \<open>respond_with (Response 200 [''{"access_token":"t2","refresh_token":"r2"}''])\<close>
            sample_client
            \<open>[(''refresh_token'', JStr ''r1''), (''client_id'', this_clientId sample_client),
              (''client_secret'', this_clientSecret sample_client),
              (''grant_type'', JStr ''refresh_token'')]\<close>
            \<open>JObj [(''access_token'', JStr ''t2''), (''refresh_token'', JStr ''r2'')]\<close>
            observe _ _ _ \<open>JStr ''r1''\<close>]
      token_written_on_success
        [of sample_platform \<open>respond_with (NetError ''socket hang up'')\<close>
            sample_client
            \<open>[(''code'', JStr ''c1''), (''client_id'', this_clientId sample_client),
              (''client_secret'', this_clientSecret sample_client),
              (''grant_type'', JStr ''authorization_code''), (''redirect_uri'', JStr ''http://cb'')]\<close>
            _ observe \<open>IDevJSError (JStr ''socket hang up'') (JNum (- 1))\<close>
            \<open>JStr ''c1''\<close> \<open>JStr ''http://cb''\<close>]
      ok failed
    by (simp add: ids field_def observe_def)
qed

section \<open>The token exchanges do not validate their arguments\<close>

text \<open>
  C5, as the code has it. \<open>exchangeAuthorizationCode\<close> and \<open>exchangeRefreshToken\<close>
  never call \<open>_enforce\<close>: whatever \<open>code\<close>, \<open>redirectUrl\<close> and
  \<open>refreshToken\<close> are, \<open>undefined\<close> included, no \<open>IDevJSError\<close> is thrown.
  Where the runtime accepts the request, the token request goes out, and a request that
  goes out is always the one with the form fields built from the values given; where the
  runtime refuses it, its \<open>TypeError\<close> escapes and nothing is sent.
\<close>

theorem exchange_sends_without_validation:
  "snd (exchangeAuthorizationCode P this code' redirectUrl net observe) \<noteq> Inl (Throw e) \<and>
   snd (exchangeRefreshToken P this refreshToken net observe) \<noteq> Inl (Throw e) \<and>
   (net (token_request P this
           [(''code'', code'),
            (''client_id'', this_clientId this),
            (''client_secret'', this_clientSecret this),
            (''grant_type'', JStr ''authorization_code''),
            (''redirect_uri'', redirectUrl)]) \<noteq> Refused \<longrightarrow>
      fst (exchangeAuthorizationCode P this code' redirectUrl net callback) =
        Some (token_request P this
                [(''code'', code'),
                 (''client_id'', this_clientId this),
                 (''client_secret'', this_clientSecret this),
                 (''grant_type'', JStr ''authorization_code''),
                 (''redirect_uri'', redirectUrl)])) \<and>
   (net (token_request P this
           [(''refresh_token'', refreshToken),
            (''client_id'', this_clientId this),
            (''client_secret'', this_clientSecret this),
            (''grant_type'', JStr ''refresh_token'')]) \<noteq> Refused \<longrightarrow>
      fst (exchangeRefreshToken P this refreshToken net callback) =
        Some (token_request P this
                [(''refresh_token'', refreshToken),
                 (''client_id'', this_clientId this),
                 (''client_secret'', this_clientSecret this),
                 (''grant_type'', JStr ''refresh_token'')])) \<and>
   (fst (exchangeAuthorizationCode P this code' redirectUrl net callback) = Some req \<longrightarrow>
      req = token_request P this
              [(''code'', code'),
               (''client_id'', this_clientId this),
               (''client_secret'', this_clientSecret this),
               (''grant_type'', JStr ''authorization_code''),
               (''redirect_uri'', redirectUrl)]) \<and>
   (fst (exchangeRefreshToken P this refreshToken net callback) = Some req \<longrightarrow>
      req = token_request P this
              [(''refresh_token'', refreshToken),
               (''client_id'', this_clientId this),
               (''client_secret'', this_clientSecret this),
               (''grant_type'', JStr ''refresh_token'')]) \<and>
   (net (token_request P this
           [(''code'', code'),
            (''client_id'', this_clientId this),
            (''client_secret'', this_clientSecret this),
            (''grant_type'', JStr ''authorization_code''),
            (''redirect_uri'', redirectUrl)]) = Refused \<longrightarrow>
      exchangeAuthorizationCode P this code' redirectUrl net callback = (None, Inl TypeError)) \<and>
   (net (token_request P this
           [(''refresh_token'', refreshToken),
            (''client_id'', this_clientId this),
            (''client_secret'', this_clientSecret this),
            (''grant_type'', JStr ''refresh_token'')]) = Refused \<longrightarrow>
      exchangeRefreshToken P this refreshToken net callback = (None, Inl TypeError))"
proof -
  have no_throw: "snd (acquireAccessToken P this params net observe) \<noteq> Inl (Throw e)" for params
    using acquireAccessToken_observe_Inl [of P this params net "Throw e"] by auto
  have sent:
    "fst (acquireAccessToken P this params net callback) =
       (if net (token_request P this params) = Refused then None
        else Some (token_request P this params))" for params
    by (simp add: acquireAccessToken_sends)
  have refused:
    "net (token_request P this params) = Refused \<Longrightarrow>
     acquireAccessToken P this params net callback = (None, Inl TypeError)" for params
    by (simp add: acquireAccessToken_sends on_transport_def)
  show ?thesis
    unfolding exchangeAuthorizationCode_def exchangeRefreshToken_def
    by (simp add: no_throw sent refused)
qed

theorem exchange_sends_without_validation_witness:
  \<open>respond_with (NetError ''socket hang up'')
     (token_request sample_platform sample_client
        [(''code'', JUndefined),
         (''client_id'', this_clientId sample_client),
         (''client_secret'', this_clientSecret sample_client),
         (''grant_type'', JStr ''authorization_code''),
         (''redirect_uri'', JUndefined)]) \<noteq> Refused \<and>
   fst (exchangeAuthorizationCode sample_platform sample_client JUndefined JUndefined
          (respond_with (NetError ''socket hang up'')) observe) =
     Some (token_request sample_platform sample_client
             [(''code'', JUndefined),
              (''client_id'', this_clientId sample_client),
              (''client_secret'', this_clientSecret sample_client),
              (''grant_type'', JStr ''authorization_code''),
              (''redirect_uri'', JUndefined)]) \<and>
   snd (exchangeRefreshToken sample_platform sample_client JUndefined
          (respond_with (NetError ''socket hang up'')) observe) \<noteq>
     Inl (Throw (IDevJSError (JStr ''Missing required parameter "refreshToken"'') (JNum (- 1))))\<close>
proof -
  have accepted:
    "respond_with (NetError ''socket hang up'')
       (token_request sample_platform sample_client
          [(''code'', JUndefined),
           (''client_id'', this_clientId sample_client),
           (''client_secret'', this_clientSecret sample_client),
           (''grant_type'', JStr ''authorization_code''),
           (''redirect_uri'', JUndefined)]) \<noteq> Refused"
    by (simp add: respond_with_def)
  note at_undefined =
    exchange_sends_without_validation
      [of sample_platform sample_client JUndefined JUndefined
          \<open>respond_with (NetError ''socket hang up'')\<close>
          \<open>IDevJSError (JStr ''Missing required parameter "refreshToken"'') (JNum (- 1))\<close>
          JUndefined observe
          \<open>token_request sample_platform sample_client []\<close>]
  from at_undefined accepted show ?thesis by blast
qed

text \<open>
  There is no validation error: called without \<open>code\<close> and \<open>redirectUrl\<close>, or without
  \<open>refreshToken\<close>, the client sends the request with empty fields, and the caller gets
  whatever the network answers.
\<close>

theorem exchange_sends_without_validation_counterexample:
  \<open>exchangeAuthorizationCode sample_platform sample_client JUndefined JUndefined
       (respond_with (Response 200 [''{"access_token":"t2","refresh_token":"r2"}''])) observe =
     (Some \<lparr>req_host = ''api.idevjs.com'', req_port = 443, req_method = ''POST'',
             req_path = ''/v1/oauth/tokens'',
             req_headers =
               [(''Content-Type'', JStr ''application/x-www-form-urlencoded''),
                (''Authorization'', JStr ''Bearer t1''),
                (''Accept'', JStr ''application/json''),
                (''Accept-Charset'', JStr ''utf-8'')],
             req_body =
               Some (Text ''code=&client_id=id1&client_secret=s1&grant_type=authorization_code&redirect_uri='')\<rparr>,
      Inr (sample_client\<lparr>this_accessToken := JStr ''t2''\<rparr>,
           Success (JObj [(''access_token'', JStr ''t2''), (''refresh_token'', JStr ''r2'')]))) \<and>
   exchangeRefreshToken sample_platform sample_client JUndefined
       (respond_with (NetError ''socket hang up'')) observe =
     (Some \<lparr>req_host = ''api.idevjs.com'', req_port = 443, req_method = ''POST'',
             req_path = ''/v1/oauth/tokens'',
             req_headers =
               [(''Content-Type'', JStr ''application/x-www-form-urlencoded''),
                (''Authorization'', JStr ''Bearer t1''),
                (''Accept'', JStr ''application/json''),
                (''Accept-Charset'', JStr ''utf-8'')],
             req_body =
               Some (Text ''refresh_token=&client_id=id1&client_secret=s1&grant_type=refresh_token'')\<rparr>,
      Inr (sample_client, Failure (IDevJSError (JStr ''socket hang up'') (JNum (- 1)))))\<close>
  by (simp add: exchangeAuthorizationCode_def exchangeRefreshToken_def acquireAccessToken_sends
      token_request_def token_descriptor_def outgoing_def sample_platform_def sample_parse_def
      sample_qs_def sample_client_def respond_with_def on_transport_def on_end_def
      on_token_result_def or_else_def observe_def BASE_URI_def DEFAULT_ERROR_CODE_def)

section \<open>The authorization URL\<close>

text \<open>
  C6, as the code has it. \<open>getAuthorizationUrl\<close> takes its arguments in the order
  \<open>(state, redirectUrl, requestedScope)\<close>. It has no access to the network, and for an
  array of scopes it returns what \<open>url.format\<close> makes of the protocol \<open>https\<close>, the
  host, the path \<open>/oauth/authorize\<close> and the query with \<open>client_id\<close> the client's
  id, \<open>scope\<close> the scopes joined by commas, \<open>response_type\<close> equal to \<open>code\<close>,
  \<open>state\<close> the given state and \<open>redirect_uri\<close> the given redirect URL.
\<close>

theorem getAuthorizationUrl_source_order:
  "getAuthorizationUrl P this state redirectUrl (JArr scopes) =
     Inr (url_format P
       \<lparr> protocol = ''https'',
         host = ''api.idevjs.com'',
         pathname = ''/oauth/authorize'',
         query = [(''client_id'', this_clientId this),
                  (''scope'',
                     JStr (join_with '',''
                             (map (\<lambda>x. if x = JUndefined \<or> x = JNull then [] else ToString x)
                                scopes))),
                  (''response_type'', JStr ''code''),
                  (''state'', state),
                  (''redirect_uri'', redirectUrl)] \<rparr>)"
  by (simp add: getAuthorizationUrl_def BASE_URI_def)

theorem getAuthorizationUrl_source_order_witness:
  "getAuthorizationUrl sample_platform sample_client (JStr ''s1'') (JStr ''http://cb'')
     (JArr [JStr ''basicProfile'', JStr ''publishPost'']) =
     Inr (url_format sample_platform
       \<lparr> protocol = ''https'',
         host = ''api.idevjs.com'',
         pathname = ''/oauth/authorize'',
         query = [(''client_id'', JStr ''id1''),
                  (''scope'', JStr ''basicProfile,publishPost''),
                  (''response_type'', JStr ''code''),
                  (''state'', JStr ''s1''),
                  (''redirect_uri'', JStr ''http://cb'')] \<rparr>)"
  using getAuthorizationUrl_source_order
    [of sample_platform sample_client "JStr ''s1''" "JStr ''http://cb''"
        "[JStr ''basicProfile'', JStr ''publishPost'']"]
  by (simp add: sample_client_def)

text \<open>
  In the order \<open>(redirectUrl, scopes, state)\<close> the state string arrives as
  \<open>requestedScope\<close>; a string has no \<open>join\<close>, and the call throws a
  \<open>TypeError\<close> instead of returning a URL.
\<close>

theorem getAuthorizationUrl_documented_order_throws:
  "getAuthorizationUrl sample_platform sample_client (JStr ''http://youcallback.url'')
     (JArr [JStr ''basicProfile'', JStr ''publishPost'']) (JStr ''you state'') = Inl TypeError"
  by (simp add: getAuthorizationUrl_def)

section \<open>Request headers\<close>

text \<open>
  C8. Every request that goes out carries exactly four headers, set in this order:
  \<open>Content-Type\<close>, which is the descriptor's \<open>contentType\<close>, or
  \<open>application/json\<close> when the descriptor has none; \<open>Authorization\<close>, which is
  \<open>Bearer\<close> and a space followed by the current access token; \<open>Accept\<close>, which is
  \<open>application/json\<close>; and \<open>Accept-Charset\<close>, which is \<open>utf-8\<close>. The
  descriptors of the token exchanges set the form content type, those of the other
  operations set none. A client on which no token has been set sends \<open>Bearer\<close>
  followed by the empty string.
\<close>

theorem request_headers:
  "((contentType options = JUndefined \<or> truthy (contentType options)) \<and>
    fst (makeRequest P this options net callback) = Some req \<longrightarrow>
      req_headers req =
        [(''Content-Type'',
            if contentType options = JUndefined then JStr ''application/json'' else contentType options),
         (''Authorization'', JStr (''Bearer '' @ ToString (this_accessToken this))),
         (''Accept'', JStr ''application/json''),
         (''Accept-Charset'', JStr ''utf-8'')]) \<and>
   (fst (perform P this op net) = Some sent \<longrightarrow>
      req_headers sent =
        [(''Content-Type'',
            JStr (case op of
                    ExchangeAuthorizationCode c r \<Rightarrow> ''application/x-www-form-urlencoded''
                  | ExchangeRefreshToken r \<Rightarrow> ''application/x-www-form-urlencoded''
                  | _ \<Rightarrow> ''application/json'')),
         (''Authorization'', JStr (''Bearer '' @ ToString (this_accessToken this))),
         (''Accept'', JStr ''application/json''),
         (''Accept-Charset'', JStr ''utf-8'')]) \<and>
   (new_IDevJSClient arg = Inr fresh \<longrightarrow>
      ''Bearer '' @ ToString (this_accessToken fresh) = ''Bearer '')"
proof (intro conjI impI)
  assume a: "(contentType options = JUndefined \<or> truthy (contentType options)) \<and>
    fst (makeRequest P this options net callback) = Some req"
  then obtain written where "req = outgoing this options written"
    using makeRequest_fst by blast
  with a show "req_headers req =
        [(''Content-Type'',
            if contentType options = JUndefined then JStr ''application/json'' else contentType options),
         (''Authorization'', JStr (''Bearer '' @ ToString (this_accessToken this))),
         (''Accept'', JStr ''application/json''),
         (''Accept-Charset'', JStr ''utf-8'')]"
    by (auto simp add: outgoing_headers or_else_def)
next
  assume "fst (perform P this op net) = Some sent"
  then show "req_headers sent =
        [(''Content-Type'',
            JStr (case op of
                    ExchangeAuthorizationCode c r \<Rightarrow> ''application/x-www-form-urlencoded''
                  | ExchangeRefreshToken r \<Rightarrow> ''application/x-www-form-urlencoded''
                  | _ \<Rightarrow> ''application/json'')),
         (''Authorization'', JStr (''Bearer '' @ ToString (this_accessToken this))),
         (''Accept'', JStr ''application/json''),
         (''Accept-Charset'', JStr ''utf-8'')]"
    by (cases op)
      (simp_all add: getUser_headers getPostForUser_headers createPost_headers
        acquireAccessToken_headers exchangeAuthorizationCode_def exchangeRefreshToken_def)
next
  assume "new_IDevJSClient arg = Inr fresh"
  then show "''Bearer '' @ ToString (this_accessToken fresh) = ''Bearer ''"
    by (simp add: new_IDevJSClient_token)
qed

theorem request_headers_witness:
  \<open>(contentType (token_descriptor sample_platform [(''grant_type'', JStr ''refresh_token'')]) = JUndefined \<or>
    truthy (contentType (token_descriptor sample_platform [(''grant_type'', JStr ''refresh_token'')]))) \<and>
   fst (makeRequest sample_platform sample_client
          (token_descriptor sample_platform [(''grant_type'', JStr ''refresh_token'')])
          (respond_with (NetError ''socket hang up'')) (observe sample_client)) =
     Some (token_request sample_platform sample_client [(''grant_type'', JStr ''refresh_token'')]) \<and>
   req_headers (token_request sample_platform sample_client [(''grant_type'', JStr ''refresh_token'')]) =
     [(''Content-Type'', JStr ''application/x-www-form-urlencoded''),
      (''Authorization'', JStr ''Bearer t1''),
      (''Accept'', JStr ''application/json''),
      (''Accept-Charset'', JStr ''utf-8'')] \<and>
   (case fst (perform sample_platform sample_client (CreatePost (JObj [(''userId'', JStr ''u1'')]))
               (respond_with (NetError ''socket hang up''))) of
      None \<Rightarrow> False
    | Some sent \<Rightarrow>
        req_headers sent =
          [(''Content-Type'', JStr ''application/json''),
           (''Authorization'', JStr ''Bearer t1''),
           (''Accept'', JStr ''application/json''),
           (''Accept-Charset'', JStr ''utf-8'')]) \<and>
   (case fst (perform sample_platform sample_client (ExchangeRefreshToken (JStr ''r1''))
               (respond_with (NetError ''socket hang up''))) of
      None \<Rightarrow> False
    | Some sent \<Rightarrow>
        req_headers sent =
          [(''Content-Type'', JStr ''application/x-www-form-urlencoded''),
           (''Authorization'', JStr ''Bearer t1''),
           (''Accept'', JStr ''application/json''),
           (''Accept-Charset'', JStr ''utf-8'')]) \<and>
   (case new_IDevJSClient (JObj [(''clientId'', JStr ''id1''), (''clientSecret'', JStr ''s1'')]) of
      Inl e \<Rightarrow> False
    | Inr fresh \<Rightarrow> ''Bearer '' @ ToString (this_accessToken fresh) = ''Bearer '')\<close>
proof -
  obtain a where a:
    "fst (perform sample_platform sample_client (CreatePost (JObj [(''userId'', JStr ''u1'')]))
            (respond_with (NetError ''socket hang up''))) = Some a"
    by (simp add: createPost_def enforce_def bind_def guard_def makeRequest_def write_data_def Let_def
        respond_with_def)
  obtain b where b:
    "fst (perform sample_platform sample_client (ExchangeRefreshToken (JStr ''r1''))
            (respond_with (NetError ''socket hang up''))) = Some b"
    by (simp add: exchangeRefreshToken_def acquireAccessToken_sends respond_with_def)
  obtain c where c:
    "new_IDevJSClient (JObj [(''clientId'', JStr ''id1''), (''clientSecret'', JStr ''s1'')]) = Inr c"
    by (simp add: new_IDevJSClient_def enforce_def bind_def)
  have t: "this_accessToken sample_client = JStr ''t1''" by (simp add: sample_client_def)
  have form:
    "contentType (token_descriptor sample_platform [(''grant_type'', JStr ''refresh_token'')]) =
       JStr ''application/x-www-form-urlencoded''"
    by (simp add: token_descriptor_def)
  have d:
    "fst (makeRequest sample_platform sample_client
            (token_descriptor sample_platform [(''grant_type'', JStr ''refresh_token'')])
            (respond_with (NetError ''socket hang up'')) (observe sample_client)) =
       Some (token_request sample_platform sample_client [(''grant_type'', JStr ''refresh_token'')])"
    by (simp add: makeRequest_def token_request_def token_descriptor_def write_data_def Let_def
        sample_platform_def sample_qs_def respond_with_def)
  show ?thesis
    using a b c d
      request_headers
        [of "token_descriptor sample_platform [(''grant_type'', JStr ''refresh_token'')]"
            sample_platform sample_client
            "respond_with (NetError ''socket hang up'')" "observe sample_client"
            "token_request sample_platform sample_client [(''grant_type'', JStr ''refresh_token'')]"
            "CreatePost (JObj [(''userId'', JStr ''u1'')])" a
            "JObj [(''clientId'', JStr ''id1''), (''clientSecret'', JStr ''s1'')]" c]
      request_headers
        [of sample_descriptor sample_platform sample_client
            "respond_with (NetError ''socket hang up'')" "observe sample_client" b
            "ExchangeRefreshToken (JStr ''r1'')" b
            "JObj [(''clientId'', JStr ''id1''), (''clientSecret'', JStr ''s1'')]" c]
    by (simp add: t form)
qed

section \<open>The body of \<open>createPost\<close>\<close>

text \<open>
  C9. The request that \<open>createPost\<close> sends carries a JSON text that reads back as the
  object made of exactly those of \<open>title\<close>, \<open>content\<close>, \<open>contentFormat\<close>,
  \<open>tags\<close>, \<open>canonicalUrl\<close>, \<open>publishStatus\<close> and \<open>license\<close> that the caller
  supplied, each under its own name and with the supplied value: a field that was not
  supplied is absent, not defaulted, and there is no other key (\<open>userId\<close> goes into the
  path). When validation passes, that request is sent where the runtime accepts it, and
  where the runtime refuses it its \<open>TypeError\<close> escapes and nothing is sent.
\<close>

theorem createPost_body_is_supplied_fields:
  "(fst (createPost P this options net callback) = Some req \<longrightarrow>
      req = post_request this options \<and> sent_json (Some req) = Some (JObj (supplied options))) \<and>
   (truthy options \<and> truthy (field options ''userId'') \<and>
    net (post_request this options) \<noteq> Refused \<longrightarrow>
      fst (createPost P this options net callback) = Some (post_request this options)) \<and>
   (truthy options \<and> truthy (field options ''userId'') \<and>
    net (post_request this options) = Refused \<longrightarrow>
      createPost P this options net callback = (None, Inl TypeError)) \<and>
   distinct (map fst (supplied options)) \<and>
   (\<forall>k. map_of (supplied options) k =
          (if k \<in> set post_fields \<and> field options k \<noteq> JUndefined
           then Some (JSON_value (field options k)) else None)) \<and>
   (\<forall>k. json_data (field options k) \<longrightarrow> JSON_value (field options k) = field options k)"
proof (intro conjI allI impI)
  assume "fst (createPost P this options net callback) = Some req"
  then show "req = post_request this options" by (rule createPost_fst)
  then show "sent_json (Some req) = Some (JObj (supplied options))"
    by (simp add: sent_json_post_request)
next
  assume "truthy options \<and> truthy (field options ''userId'') \<and>
    net (post_request this options) \<noteq> Refused"
  then show "fst (createPost P this options net callback) = Some (post_request this options)"
    by (simp add: createPost_accepted)
next
  assume "truthy options \<and> truthy (field options ''userId'') \<and>
    net (post_request this options) = Refused"
  then show "createPost P this options net callback = (None, Inl TypeError)"
    by (simp add: createPost_refused)
next
  have "distinct post_fields" by (simp add: post_fields_def)
  then show "distinct (map fst (supplied options))"
    by (simp add: supplied_def comp_def)
next
  fix k
  show "map_of (supplied options) k =
          (if k \<in> set post_fields \<and> field options k \<noteq> JUndefined
           then Some (JSON_value (field options k)) else None)"
    by (simp add: supplied_def map_of_fields)
next
  fix k
  assume "json_data (field options k)"
  then show "JSON_value (field options k) = field options k"
    by (simp add: JSON_value_json_data)
qed

theorem createPost_body_is_supplied_fields_witness:
  "truthy (JObj [(''userId'', JNum 7), (''title'', JStr ''Hi''), (''tags'', JArr [JStr ''a'']),
                 (''publishStatus'', JStr ''draft'')]) \<and>
   truthy (field (JObj [(''userId'', JNum 7), (''title'', JStr ''Hi''), (''tags'', JArr [JStr ''a'']),
                        (''publishStatus'', JStr ''draft'')]) ''userId'') \<and>
   respond_with (NetError ''socket hang up'')
     (post_request sample_client
        (JObj [(''userId'', JNum 7), (''title'', JStr ''Hi''), (''tags'', JArr [JStr ''a'']),
               (''publishStatus'', JStr ''draft'')])) \<noteq> Refused \<and>
   sent_json (fst (createPost sample_platform sample_client
                     (JObj [(''userId'', JNum 7), (''title'', JStr ''Hi''), (''tags'', JArr [JStr ''a'']),
                            (''publishStatus'', JStr ''draft'')])
                     (respond_with (NetError ''socket hang up'')) observe)) =
     Some (JObj [(''title'', JStr ''Hi''), (''tags'', JArr [JStr ''a'']),
                 (''publishStatus'', JStr ''draft'')])"
proof -
  let ?options = "JObj [(''userId'', JNum 7), (''title'', JStr ''Hi''), (''tags'', JArr [JStr ''a'']),
                        (''publishStatus'', JStr ''draft'')]"
  have t1: "truthy ?options" by simp
  have t2: "truthy (field ?options ''userId'')" by (simp add: field_def)
  have t3: "respond_with (NetError ''socket hang up'') (post_request sample_client ?options) \<noteq> Refused"
    by (simp add: respond_with_def)
  show ?thesis
    using t1 t2 t3
      createPost_body_is_supplied_fields
        [of sample_platform sample_client ?options "respond_with (NetError ''socket hang up'')"
            observe "post_request sample_client ?options"]
    by (simp add: supplied_def post_fields_def field_def)
qed

section \<open>Error codes\<close>




end
